theory Spec2Isabelle
  imports Complex_Main "HOL-Library.Multiset" "HOL-Library.Sublist"
begin

section \<open>Values held by the data frame\<close>

text \<open>
  \<open>scanner_github.py\<close> turns the provider's answer (a list of JSON objects) into a pandas
  data frame. A cell of that frame holds a value, Python's \<open>None\<close> (a JSON null in a
  column without numbers) or the float \<open>nan\<close> (a key that one object lacks, or a JSON
  null in a numeric column). Finite floats are modelled by the reals: the claims depend
  on comparisons, on \<open>nan\<close> and on truthiness, not on rounding.
\<close>

datatype 'a cell = PyNone | NaN | Val 'a

text \<open>A Python float after \<open>float(...)\<close>: \<open>nan\<close> or a finite number.\<close>

datatype pyfloat = FNaN | Fin real

text \<open>Comparisons and products of floats: every comparison with \<open>nan\<close> is false.\<close>

fun f_ge :: "pyfloat \<Rightarrow> pyfloat \<Rightarrow> bool" where
  "f_ge (Fin a) (Fin b) = (a \<ge> b)"
| "f_ge _ _ = False"

fun f_gt :: "pyfloat \<Rightarrow> pyfloat \<Rightarrow> bool" where
  "f_gt (Fin a) (Fin b) = (a > b)"
| "f_gt _ _ = False"

fun f_mul :: "pyfloat \<Rightarrow> pyfloat \<Rightarrow> pyfloat" where
  "f_mul (Fin a) (Fin b) = Fin (a * b)"
| "f_mul _ _ = FNaN"

text \<open>
  The exceptions of a run: those of Python's own conversions, and \<open>External\<close> for a
  fault raised by a collaborator, with its detail.
\<close>

datatype exn = AttributeError | TypeError | ValueError | External string

text \<open>The outcome of a call to an external collaborator.\<close>

datatype 'a call = Raises string | Returns 'a

section \<open>Configuration and provider records\<close>

record config =
  RANK_MIN :: int
  RANK_MAX :: int
  MIN_1H_PCT :: real
  MIN_24H_PCT :: real
  VOLUME_MULTIPLIER :: real
  SMTP_USER :: string
  SMTP_PASSWORD :: string
  EMAIL_RECIPIENT :: string

text \<open>
  One object of the provider's list. A field is \<open>None\<close> when the object has no such key,
  and \<open>Some c\<close> when it has, \<open>c\<close> being what the frame's cell then holds. \<open>id_key\<close> is
  the key \<open>"id"\<close>.
\<close>

record coin =
  id_key :: "string cell option"
  symbol :: "string cell option"
  name :: "string cell option"
  market_cap_rank :: "real cell option"
  current_price :: "real cell option"
  total_volume :: "real cell option"
  price_change_percentage_1h_in_currency :: "real cell option"
  price_change_percentage_24h :: "real cell option"
  price_change_percentage_24h_in_currency :: "real cell option"
  price_change_24h :: "real cell option"

text \<open>
  \<open>pd.DataFrame(markets)\<close>: a column exists as soon as one object has the key, and an
  object without the key gets \<open>nan\<close> in that column.
\<close>

definition has_col :: "coin list \<Rightarrow> (coin \<Rightarrow> 'a cell option) \<Rightarrow> bool" where
  "has_col df key = (\<exists>r \<in> set df. key r \<noteq> None)"

definition cell_of :: "'a cell option \<Rightarrow> 'a cell" where
  "cell_of c = (case c of None \<Rightarrow> NaN | Some v \<Rightarrow> v)"

text \<open>\<open>row.get(key, default)\<close> on a row of the frame \<open>df\<close>.\<close>

definition row_get :: "coin list \<Rightarrow> coin \<Rightarrow> (coin \<Rightarrow> 'a cell option) \<Rightarrow> 'a cell \<Rightarrow> 'a cell" where
  "row_get df row key dflt = (if has_col df key then cell_of (key row) else dflt)"

section \<open>The rank filter\<close>

text \<open>
  \<open>Series.between(left, right)\<close> is \<open>(s >= left) & (s <= right)\<close>, both bounds included;
  a missing value compares false.
\<close>

fun between :: "real \<Rightarrow> real \<Rightarrow> real cell \<Rightarrow> bool" where
  "between left right (Val x) = (x \<ge> left \<and> x \<le> right)"
| "between left right _ = False"

text \<open>\<open>df[mask]\<close>: the rows whose mask entry is true, in the frame's order.\<close>

definition select_mask :: "'a list \<Rightarrow> bool list \<Rightarrow> 'a list" where
  "select_mask df msk = map fst (filter snd (zip df msk))"

definition rank_mask :: "config \<Rightarrow> coin list \<Rightarrow> bool list" where
  "rank_mask cfg df =
     map (\<lambda>r. between (of_int (RANK_MIN cfg)) (of_int (RANK_MAX cfg)) (cell_of (market_cap_rank r))) df"

definition rank_filter :: "config \<Rightarrow> coin list \<Rightarrow> coin list" where
  "rank_filter cfg df = select_mask df (rank_mask cfg df)"

text \<open>The rank window in the spec's words: the rank is present and inside the closed interval.\<close>

definition in_rank_window :: "config \<Rightarrow> coin \<Rightarrow> bool" where
  "in_rank_window cfg r =
     (\<exists>x. market_cap_rank r = Some (Val x) \<and> of_int (RANK_MIN cfg) \<le> x \<and> x \<le> of_int (RANK_MAX cfg))"

section \<open>Derived columns and the median volume\<close>

text \<open>
  A row of \<open>sel\<close>: the provider's object and the three columns that \<open>run_scan\<close> assigns
  (\<open>price_change_1h\<close>, \<open>price_change_24h\<close> and \<open>total_volume\<close>; the last two replace
  the provider's columns of the same name, hence the suffix). \<open>sel\<close> has the columns of
  \<open>df\<close>, so the presence of a column is read from \<open>df\<close>.
\<close>

record sel_row =
  raw :: coin
  price_change_1h :: "real cell"
  price_change_24h_sel :: "real cell"
  total_volume_sel :: "real cell"

definition col_price_change_1h :: "coin list \<Rightarrow> coin \<Rightarrow> real cell" where
  "col_price_change_1h df r =
     (let v = row_get df r price_change_percentage_1h_in_currency
                (row_get df r price_change_percentage_24h NaN)
      in if has_col df price_change_percentage_24h_in_currency
            \<and> \<not> has_col df price_change_percentage_1h_in_currency
         then NaN else v)"

definition prepare :: "coin list \<Rightarrow> coin \<Rightarrow> sel_row" where
  "prepare df r =
     \<lparr>raw = r,
      price_change_1h = col_price_change_1h df r,
      price_change_24h_sel =
        row_get df r price_change_percentage_24h_in_currency (row_get df r price_change_24h NaN),
      total_volume_sel = row_get df r total_volume (Val 0)\<rparr>"

definition isna :: "'a cell \<Rightarrow> bool" where
  "isna c = (case c of Val _ \<Rightarrow> False | _ \<Rightarrow> True)"

text \<open>The values of a column that are not missing (\<open>skipna\<close>).\<close>

fun present :: "'a cell list \<Rightarrow> 'a list" where
  "present [] = []"
| "present (Val x # cs) = x # present cs"
| "present (_ # cs) = present cs"

text \<open>The middle of a sorted list: the middle value, or the mean of the two middle values.\<close>

definition middle :: "real list \<Rightarrow> real" where
  "middle s =
     (let n = length s
      in if odd n then s ! (n div 2) else (s ! (n div 2 - 1) + s ! (n div 2)) / 2)"

text \<open>\<open>Series.median()\<close>: the median of the values present, \<open>nan\<close> when there is none.\<close>

definition series_median :: "real cell list \<Rightarrow> pyfloat" where
  "series_median col =
     (let vs = present col in if vs = [] then FNaN else Fin (middle (sort vs)))"

definition median_vol :: "sel_row list \<Rightarrow> pyfloat" where
  "median_vol sel =
     (let col = map total_volume_sel sel
      in if \<not> list_all isna col then series_median col else Fin 0)"

text \<open>
  A statistical median of a list, in the spec's words: at least half of the values are
  at most \<open>m\<close> and at least half are at least \<open>m\<close>.
\<close>

definition is_median :: "real list \<Rightarrow> real \<Rightarrow> bool" where
  "is_median vs m =
     (length vs \<le> 2 * length (filter (\<lambda>v. v \<le> m) vs)
      \<and> length vs \<le> 2 * length (filter (\<lambda>v. m \<le> v) vs))"

section \<open>Evaluating one row\<close>

definition upper_char :: "char \<Rightarrow> char" where
  "upper_char c =
     (let n = (of_char c :: nat) in if 97 \<le> n \<and> n \<le> 122 then char_of (n - 32) else c)"

text \<open>
  \<open>x.upper()\<close>: only a string has the method. Letters outside ASCII are left as they
  are.
\<close>

definition py_upper :: "string cell \<Rightarrow> exn + string" where
  "py_upper c = (case c of Val s \<Rightarrow> Inr (map upper_char s) | _ \<Rightarrow> Inl AttributeError)"

text \<open>\<open>int(x)\<close> of a float truncates towards zero, and raises on \<open>nan\<close> and on \<open>None\<close>.\<close>

definition trunc :: "real \<Rightarrow> int" where
  "trunc x = (if x \<ge> 0 then \<lfloor>x\<rfloor> else \<lceil>x\<rceil>)"

definition py_int :: "real cell \<Rightarrow> exn + int" where
  "py_int c = (case c of PyNone \<Rightarrow> Inl TypeError | NaN \<Rightarrow> Inl ValueError | Val x \<Rightarrow> Inr (trunc x))"

text \<open>
  \<open>float(x or 0)\<close>: \<open>None\<close> and \<open>0\<close> are falsy and give \<open>0\<close>; \<open>nan\<close> is truthy and
  stays \<open>nan\<close>.
\<close>

definition float_or_0 :: "real cell \<Rightarrow> pyfloat" where
  "float_or_0 c = (case c of PyNone \<Rightarrow> Fin 0 | NaN \<Rightarrow> FNaN | Val x \<Rightarrow> Fin x)"

text \<open>A reason string carries the value and the threshold it was compared with.\<close>

datatype reason = Reason_1h pyfloat real | Reason_24h pyfloat real | Reason_vol pyfloat real

definition cond_1h :: "config \<Rightarrow> pyfloat \<Rightarrow> bool" where
  "cond_1h cfg change_1h = f_ge change_1h (Fin (MIN_1H_PCT cfg))"

definition cond_24h :: "config \<Rightarrow> pyfloat \<Rightarrow> bool" where
  "cond_24h cfg change_24h = f_ge change_24h (Fin (MIN_24H_PCT cfg))"

definition cond_vol :: "config \<Rightarrow> pyfloat \<Rightarrow> pyfloat \<Rightarrow> bool" where
  "cond_vol cfg med vol =
     (f_gt med (Fin 0) \<and> f_ge vol (f_mul med (Fin (VOLUME_MULTIPLIER cfg))))"

definition reasons_of :: "config \<Rightarrow> pyfloat \<Rightarrow> pyfloat \<Rightarrow> pyfloat \<Rightarrow> pyfloat \<Rightarrow> reason list" where
  "reasons_of cfg med vol change_1h change_24h =
     (if cond_1h cfg change_1h then [Reason_1h change_1h (MIN_1H_PCT cfg)] else [])
     @ (if cond_24h cfg change_24h then [Reason_24h change_24h (MIN_24H_PCT cfg)] else [])
     @ (if cond_vol cfg med vol then [Reason_vol vol (VOLUME_MULTIPLIER cfg)] else [])"

text \<open>The number of true conditions in a list of conditions, and the 2-of-3 quorum.\<close>

definition count_true :: "bool list \<Rightarrow> nat" where
  "count_true bs = length (filter (\<lambda>b. b) bs)"

section \<open>The funding-rate lookup\<close>

text \<open>A funding answer is a dict, kept as its list of items.\<close>

type_synonym fdict = "(string \<times> string) list"

text \<open>
  An exchange object of the optional library: a method is \<open>None\<close> when \<open>hasattr\<close> is
  false, and a call of a method raises or returns.
\<close>

record exchange =
  fetch_funding_rate :: "(string \<Rightarrow> fdict option call) option"
  fetchFundingRate :: "(string \<Rightarrow> fdict option call) option"
  fetchFundingRates :: "(string list \<Rightarrow> fdict list call) option"

text \<open>What \<open>resp.json()\<close> gives: a list of objects, or anything that is not a list.\<close>

datatype markets_json = JsonList "coin list" | JsonOther

section \<open>Candidates, reports and the environment\<close>

text \<open>The dict that \<open>run_scan\<close> appends to \<open>candidates\<close>.\<close>

record candidate =
  c_id :: "string cell"
  c_name :: "string cell"
  c_symbol :: string
  c_rank :: int
  c_price :: "real cell"
  c_vol :: pyfloat
  c_1h :: pyfloat
  c_24h :: pyfloat
  c_reasons :: "reason list"
  c_funding :: "fdict option"

text \<open>
  A table row of the report. The cells are kept as values; the volume cell is
  \<open>int(c['vol'])\<close>. The text of the funding cell is not modelled.
\<close>

record report_row =
  r_rank :: int
  r_name :: "string cell"
  r_symbol :: string
  r_price :: "real cell"
  r_1h :: pyfloat
  r_24h :: pyfloat
  r_vol :: int
  r_reasons :: "reason list"
  r_funding :: "fdict option"

record report =
  rank_min :: int
  rank_max :: int
  found :: nat
  table :: "report_row list"

datatype subject = Candidates_found nat | Scanner_ERROR

datatype body = Report report | Crash exn

text \<open>
  What a run does to the outside, in order: log records, calls of
  \<open>try_fetch_funding_rate\<close> (exchange and symbol) and calls of \<open>send_email\<close>.
\<close>

datatype event =
    Log_info string
  | Log_warning string
  | Log_error string
  | Log_exception string
  | Funding_call string string
  | Email_call subject body

text \<open>
  The collaborators of a run: the market-data call, the optional library (\<open>ccxt name\<close>
  is \<open>getattr(ccxt, name)()\<close>), a fault of the message construction that precedes
  \<open>send_email\<close>'s own \<open>try\<close>, and the SMTP dialogue (\<open>Some e\<close> when it raises).
\<close>

record env =
  fetch_coingecko_markets :: "markets_json call"
  CCXT_AVAILABLE :: bool
  ccxt :: "string \<Rightarrow> exchange call"
  mime_fault :: "subject \<Rightarrow> body \<Rightarrow> string option"
  smtp :: "subject \<Rightarrow> body \<Rightarrow> string option"

definition try_fetch_funding_rate :: "env \<Rightarrow> string \<Rightarrow> string \<Rightarrow> fdict option" where
  "try_fetch_funding_rate env ccxt_exchange symb =
     (if \<not> CCXT_AVAILABLE env then None
      else case ccxt env ccxt_exchange of
        Raises e \<Rightarrow> None
      | Returns ex \<Rightarrow>
         (case fetch_funding_rate ex of
            Some f \<Rightarrow> (case f symb of Raises e \<Rightarrow> None | Returns fr \<Rightarrow> fr)
          | None \<Rightarrow>
             (case fetchFundingRate ex of
                Some f \<Rightarrow> (case f symb of Raises e \<Rightarrow> None | Returns fr \<Rightarrow> fr)
              | None \<Rightarrow>
                 (case fetchFundingRates ex of
                    Some f \<Rightarrow>
                      (case f [symb] of
                         Raises e \<Rightarrow> None
                       | Returns rates \<Rightarrow> find (\<lambda>r. map_of r ''symbol'' = Some symb) rates)
                  | None \<Rightarrow> None))))"

text \<open>\<open>if fr:\<close> holds for a dict that is not empty.\<close>

definition truthy :: "fdict option \<Rightarrow> bool" where
  "truthy fr = (case fr of None \<Rightarrow> False | Some d \<Rightarrow> d \<noteq> [])"

definition try_symbols :: "string \<Rightarrow> string list" where
  "try_symbols symb =
     (if symb \<noteq> [] then [symb @ ''/USDT'', symb @ ''/USD'', symb @ ''/USDT:USDT''] else [])"

text \<open>The loop over the symbol guesses, with its \<open>break\<close> at the first truthy answer.\<close>

fun funding_loop :: "env \<Rightarrow> string list \<Rightarrow> fdict option \<times> event list" where
  "funding_loop env [] = (None, [])"
| "funding_loop env (s # ss) =
     (let fr = try_fetch_funding_rate env ''binance'' s
      in if truthy fr then (fr, [Funding_call ''binance'' s])
         else (case funding_loop env ss of
                 (funding_info, t) \<Rightarrow> (funding_info, Funding_call ''binance'' s # t)))"

text \<open>
  The body of the \<open>try\<close> inside the row loop: the candidate the row gives, if any, or
  the exception it raises, and the calls made.
\<close>

definition eval_row ::
  "config \<Rightarrow> env \<Rightarrow> coin list \<Rightarrow> pyfloat \<Rightarrow> sel_row \<Rightarrow> (exn + candidate option) \<times> event list" where
  "eval_row cfg env df med row =
     (let coin_id = row_get df (raw row) id_key PyNone
      in case py_upper (row_get df (raw row) symbol (Val [])) of
        Inl e \<Rightarrow> (Inl e, [])
      | Inr symb \<Rightarrow>
         (let nm = row_get df (raw row) name coin_id
          in case py_int (row_get df (raw row) market_cap_rank (Val (- 1))) of
            Inl e \<Rightarrow> (Inl e, [])
          | Inr rank \<Rightarrow>
             (let price = row_get df (raw row) current_price NaN;
                  vol = float_or_0 (total_volume_sel row);
                  change_1h = float_or_0 (price_change_1h row);
                  change_24h = float_or_0 (price_change_24h_sel row);
                  reasons = reasons_of cfg med vol change_1h change_24h;
                  signal = (length reasons \<ge> 2);
                  lookup = (if CCXT_AVAILABLE env then funding_loop env (try_symbols symb)
                            else (None, []))
              in (Inr (if signal
                       then Some \<lparr>c_id = coin_id, c_name = nm, c_symbol = symb, c_rank = rank,
                                  c_price = price, c_vol = vol, c_1h = change_1h,
                                  c_24h = change_24h, c_reasons = reasons,
                                  c_funding = fst lookup\<rparr>
                       else None),
                  snd lookup))))"

text \<open>The row loop: \<open>candidates\<close> grows by \<open>append\<close>; a row that raises is logged and skipped.\<close>

fun scan_rows ::
  "config \<Rightarrow> env \<Rightarrow> coin list \<Rightarrow> pyfloat \<Rightarrow> sel_row list \<Rightarrow> candidate list
     \<Rightarrow> candidate list \<times> event list" where
  "scan_rows cfg env df med [] candidates = (candidates, [])"
| "scan_rows cfg env df med (row # rows) candidates =
     (case eval_row cfg env df med row of
        (Inl e, t) \<Rightarrow>
          (case scan_rows cfg env df med rows candidates of
             (cs, t') \<Rightarrow> (cs, t @ Log_exception ''Error processing coin row'' # t'))
      | (Inr None, t) \<Rightarrow>
          (case scan_rows cfg env df med rows candidates of (cs, t') \<Rightarrow> (cs, t @ t'))
      | (Inr (Some c), t) \<Rightarrow>
          (case scan_rows cfg env df med rows (candidates @ [c]) of (cs, t') \<Rightarrow> (cs, t @ t')))"

section \<open>The report and the notifier\<close>

definition render_row :: "candidate \<Rightarrow> exn + report_row" where
  "render_row c =
     (case c_vol c of
        FNaN \<Rightarrow> Inl ValueError
      | Fin v \<Rightarrow>
          Inr \<lparr>r_rank = c_rank c, r_name = c_name c, r_symbol = c_symbol c,
               r_price = c_price c, r_1h = c_1h c, r_24h = c_24h c, r_vol = trunc v,
               r_reasons = c_reasons c, r_funding = c_funding c\<rparr>)"

fun render_rows :: "candidate list \<Rightarrow> exn + report_row list" where
  "render_rows [] = Inr []"
| "render_rows (c # cs) =
     (case render_row c of
        Inl e \<Rightarrow> Inl e
      | Inr r \<Rightarrow> (case render_rows cs of Inl e \<Rightarrow> Inl e | Inr rs \<Rightarrow> Inr (r # rs)))"

text \<open>\<open>sorted(candidates, key=lambda x: x["rank"])\<close> is a stable sort, as \<open>sort_key\<close> is.\<close>

definition render_report :: "config \<Rightarrow> candidate list \<Rightarrow> exn + report" where
  "render_report cfg candidates =
     (case render_rows (sort_key c_rank candidates) of
        Inl e \<Rightarrow> Inl e
      | Inr rows \<Rightarrow>
          Inr \<lparr>rank_min = RANK_MIN cfg, rank_max = RANK_MAX cfg,
               found = length candidates, table = rows\<rparr>)"

definition send_email ::
  "config \<Rightarrow> env \<Rightarrow> subject \<Rightarrow> body \<Rightarrow> (exn + bool \<times> string) \<times> event list" where
  "send_email cfg env subj html_body =
     (if SMTP_USER cfg = [] \<or> SMTP_PASSWORD cfg = [] \<or> EMAIL_RECIPIENT cfg = []
      then (Inr (False, ''SMTP/recipient not configured''),
            [Email_call subj html_body,
             Log_warning ''SMTP or recipient not configured. Skipping email send.''])
      else case mime_fault env subj html_body of
        Some e \<Rightarrow> (Inl (External e), [Email_call subj html_body])
      | None \<Rightarrow>
         (case smtp env subj html_body of
            None \<Rightarrow> (Inr (True, ''ok''), [Email_call subj html_body, Log_info ''Email sent''])
          | Some e \<Rightarrow>
              (Inr (False, e), [Email_call subj html_body, Log_exception ''Failed to send email''])))"

section \<open>The scan\<close>

text \<open>The rows the loop runs over, the median it uses and the candidates it collects.\<close>

definition selected :: "config \<Rightarrow> coin list \<Rightarrow> sel_row list" where
  "selected cfg df = map (prepare df) (rank_filter cfg df)"

definition candidates_of :: "config \<Rightarrow> env \<Rightarrow> coin list \<Rightarrow> candidate list" where
  "candidates_of cfg env df =
     fst (scan_rows cfg env df (median_vol (selected cfg df)) (selected cfg df) [])"

text \<open>The \<open>try\<close> block of \<open>run_scan\<close> from the data frame on.\<close>

definition scan_frame :: "config \<Rightarrow> env \<Rightarrow> coin list \<Rightarrow> (exn + unit) \<times> event list" where
  "scan_frame cfg env df =
     (if \<not> has_col df market_cap_rank
      then (Inr (), [Log_error ''CoinGecko data missing market_cap_rank''])
      else if rank_filter cfg df = []
      then (Inr (), [Log_info ''No coins in the requested rank range''])
      else
        (let sel = selected cfg df; med = median_vol sel
         in case scan_rows cfg env df med sel [] of
           (candidates, t1) \<Rightarrow>
             if candidates = []
             then (Inr (), t1 @ [Log_info ''No candidates found this run.''])
             else
               (case render_report cfg candidates of
                  Inl e \<Rightarrow> (Inl e, t1)
                | Inr html \<Rightarrow>
                   (case send_email cfg env (Candidates_found (length candidates)) (Report html) of
                      (Inl e, t2) \<Rightarrow> (Inl e, t1 @ t2)
                    | (Inr (ok, info), t2) \<Rightarrow>
                        (Inr (),
                         t1 @ t2
                         @ [if ok then Log_info ''Report emailed successfully.''
                            else Log_error (''Email failed: '' @ info)])))))"

definition scan_body :: "config \<Rightarrow> env \<Rightarrow> (exn + unit) \<times> event list" where
  "scan_body cfg env =
     (case fetch_coingecko_markets env of
        Raises e \<Rightarrow> (Inl (External e), [Log_info ''Starting scan''])
      | Returns JsonOther \<Rightarrow>
          (Inr (), [Log_info ''Starting scan'', Log_error ''No market data from CoinGecko''])
      | Returns (JsonList markets) \<Rightarrow>
          if markets = []
          then (Inr (), [Log_info ''Starting scan'', Log_error ''No market data from CoinGecko''])
          else (case scan_frame cfg env markets of
                  (res, t) \<Rightarrow> (res, Log_info ''Starting scan'' # t)))"

text \<open>\<open>run_scan\<close>: the \<open>try\<close> block and its handler, which sends the crash notification.\<close>

definition run_scan :: "config \<Rightarrow> env \<Rightarrow> (exn + unit) \<times> event list" where
  "run_scan cfg env =
     (case scan_body cfg env of
        (Inr u, t) \<Rightarrow> (Inr (), t)
      | (Inl e, t) \<Rightarrow>
         (case send_email cfg env Scanner_ERROR (Crash e) of
            (Inl e', t2) \<Rightarrow>
              (Inr (),
               t @ Log_exception ''Scan aborted due to exception'' # t2
               @ [Log_exception ''Also failed to send crash email''])
          | (Inr r, t2) \<Rightarrow>
              (Inr (), t @ Log_exception ''Scan aborted due to exception'' # t2)))"

text \<open>The calls recorded in a trace.\<close>

fun email_calls :: "event list \<Rightarrow> (subject \<times> body) list" where
  "email_calls [] = []"
| "email_calls (Email_call s b # t) = (s, b) # email_calls t"
| "email_calls (_ # t) = email_calls t"

fun funding_calls :: "event list \<Rightarrow> string list" where
  "funding_calls [] = []"
| "funding_calls (Funding_call x s # t) = s # funding_calls t"
| "funding_calls (_ # t) = funding_calls t"

fun row_errors :: "event list \<Rightarrow> nat" where
  "row_errors [] = 0"
| "row_errors (Log_exception m # t) =
     (if m = ''Error processing coin row'' then Suc (row_errors t) else row_errors t)"
| "row_errors (_ # t) = row_errors t"

section \<open>Notions used to state the properties\<close>

text \<open>The three conditions of a row, on the values the row loop computes.\<close>

definition conditions :: "config \<Rightarrow> pyfloat \<Rightarrow> sel_row \<Rightarrow> bool list" where
  "conditions cfg med row =
     [cond_1h cfg (float_or_0 (price_change_1h row)),
      cond_24h cfg (float_or_0 (price_change_24h_sel row)),
      cond_vol cfg med (float_or_0 (total_volume_sel row))]"

text \<open>The candidates that the outcome of one row contributes.\<close>

definition kept :: "exn + candidate option \<Rightarrow> candidate list" where
  "kept res = (case res of Inr (Some c) \<Rightarrow> [c] | _ \<Rightarrow> [])"

text \<open>
  The guesses that get tried: those that fail before the first success, and the first
  success itself.
\<close>

definition attempts :: "env \<Rightarrow> string list \<Rightarrow> string list" where
  "attempts env ss =
     (let failed = takeWhile (\<lambda>s. \<not> truthy (try_fetch_funding_rate env ''binance'' s)) ss
      in failed @ take 1 (drop (length failed) ss))"

text \<open>The answer of the first guess that succeeds, if one does.\<close>

definition first_success :: "env \<Rightarrow> string list \<Rightarrow> fdict option" where
  "first_success env ss =
     (case dropWhile (\<lambda>s. \<not> truthy (try_fetch_funding_rate env ''binance'' s)) ss of
        [] \<Rightarrow> None
      | s # rest \<Rightarrow> try_fetch_funding_rate env ''binance'' s)"

text \<open>The outcome of a row with the funding annotation left out.\<close>

definition erase_funding :: "exn + candidate option \<Rightarrow> exn + candidate option" where
  "erase_funding res = map_sum id (map_option (\<lambda>c. c\<lparr>c_funding := None\<rparr>)) res"

text \<open>The total-volume values present in the rank-filtered population.\<close>

definition volumes :: "config \<Rightarrow> coin list \<Rightarrow> real list" where
  "volumes cfg df = present (map (\<lambda>r. cell_of (total_volume r)) (rank_filter cfg df))"

text \<open>The three symbol guesses for an upper-case symbol, in the order they are tried.\<close>

definition guesses :: "string \<Rightarrow> string list" where
  "guesses symb = [symb @ ''/USDT'', symb @ ''/USD'', symb @ ''/USDT:USDT'']"

text \<open>
  The median of the total-volume values present in the rank-filtered population, 0 when
  there is none.
\<close>

definition filtered_median :: "config \<Rightarrow> coin list \<Rightarrow> pyfloat" where
  "filtered_median cfg df =
     (if volumes cfg df = [] then Fin 0 else Fin (middle (sort (volumes cfg df))))"

text \<open>
  The candidates obtained when every filtered record is evaluated on its own against
  that median.
\<close>

definition expected_candidates :: "config \<Rightarrow> env \<Rightarrow> coin list \<Rightarrow> candidate list" where
  "expected_candidates cfg env df =
     concat (map (\<lambda>r. kept (fst (eval_row cfg env df (filtered_median cfg df) (prepare df r))))
               (rank_filter cfg df))"

section \<open>Concrete inputs\<close>

definition cfg0 :: config where
  "cfg0 = \<lparr>RANK_MIN = 40, RANK_MAX = 100, MIN_1H_PCT = 2, MIN_24H_PCT = 3,
           VOLUME_MULTIPLIER = 14 / 10, SMTP_USER = ''u'', SMTP_PASSWORD = ''p'',
           EMAIL_RECIPIENT = ''r''\<rparr>"

definition no_coin :: coin where
  "no_coin = \<lparr>id_key = None, symbol = None, name = None, market_cap_rank = None,
              current_price = None, total_volume = None,
              price_change_percentage_1h_in_currency = None,
              price_change_percentage_24h = None,
              price_change_percentage_24h_in_currency = None,
              price_change_24h = None\<rparr>"

text \<open>A well-formed object: id, symbol, rank, volume, 1h and 24h change.\<close>

definition mk_coin :: "string \<Rightarrow> real cell \<Rightarrow> real cell \<Rightarrow> real cell \<Rightarrow> real cell \<Rightarrow> coin" where
  "mk_coin s rk vol h1 h24 =
     no_coin\<lparr>id_key := Some (Val s), symbol := Some (Val s), name := Some (Val s),
             market_cap_rank := Some rk, current_price := Some (Val 1),
             total_volume := Some vol,
             price_change_percentage_1h_in_currency := Some h1,
             price_change_percentage_24h := Some h24,
             price_change_percentage_24h_in_currency := Some h24\<rparr>"

text \<open>A run without the optional library, whose market-data call returns \<open>j\<close>.\<close>

definition env0 :: "markets_json call \<Rightarrow> env" where
  "env0 j = \<lparr>fetch_coingecko_markets = j, CCXT_AVAILABLE = False,
             ccxt = (\<lambda>n. Raises ''no exchange''), mime_fault = (\<lambda>s b. None),
             smtp = (\<lambda>s b. None)\<rparr>"

text \<open>Objects and frames used as concrete inputs below.\<close>

definition coin_a :: coin where "coin_a = mk_coin ''aaa'' (Val 40) (Val 100) (Val 1) (Val 1)"
definition coin_b :: coin where "coin_b = mk_coin ''bbb'' (Val 55) (Val 300) (Val (5 / 2)) (Val 1)"
definition coin_c :: coin where "coin_c = mk_coin ''ccc'' NaN (Val 300) (Val 5) (Val 5)"
definition coin_d :: coin where "coin_d = mk_coin ''ddd'' (Val 101) (Val 300) (Val 5) (Val 5)"
definition coin_e :: coin where "coin_e = mk_coin ''eee'' (Val 100) (Val 100) (Val 5) (Val 5)"

definition df1 :: "coin list" where
  "df1 = [coin_a, coin_b, coin_c, coin_d, coin_e]"

definition env1 :: env where
  "env1 = env0 (Returns (JsonList df1))"

definition exchange_raising :: exchange where
  "exchange_raising =
     \<lparr>fetch_funding_rate = Some (\<lambda>s. Raises ''not supported''),
      fetchFundingRate = None, fetchFundingRates = None\<rparr>"

definition env_raising :: env where
  "env_raising = env1\<lparr>CCXT_AVAILABLE := True, ccxt := (\<lambda>n. Returns exchange_raising)\<rparr>"

definition exchange_usd :: exchange where
  "exchange_usd =
     \<lparr>fetch_funding_rate = None, fetchFundingRate = None,
      fetchFundingRates =
        Some (\<lambda>ss. Returns [[(''symbol'', ''BBB/USD''), (''fundingRate'', ''0.0001'')]])\<rparr>"

definition env_usd :: env where
  "env_usd = env1\<lparr>CCXT_AVAILABLE := True, ccxt := (\<lambda>n. Returns exchange_usd)\<rparr>"

definition cfg_zero :: config where
  "cfg_zero = cfg0\<lparr>MIN_1H_PCT := 0\<rparr>"

definition cfg_unconfigured :: config where
  "cfg_unconfigured = cfg0\<lparr>SMTP_USER := []\<rparr>"

definition coin_n :: coin where
  "coin_n = mk_coin ''nnn'' (Val 55) (Val 100) NaN (Val 5)"

definition df2 :: "coin list" where
  "df2 = [mk_coin ''aaa'' (Val 50) (Val 100) (Val 1) (Val 1), coin_n]"

definition coin_s :: coin where
  "coin_s = (mk_coin ''sss'' (Val 55) (Val 300) NaN (Val 5))
              \<lparr>price_change_percentage_1h_in_currency := None,
               price_change_percentage_24h_in_currency := None\<rparr>"

definition df3 :: "coin list" where
  "df3 = [(mk_coin ''aaa'' (Val 50) (Val 100) NaN (Val 1))
              \<lparr>price_change_percentage_1h_in_currency := None,
               price_change_percentage_24h_in_currency := None\<rparr>, coin_s]"

definition coin_f :: coin where
  "coin_f = (mk_coin ''fff'' (Val 60) (Val 300) (Val 5) (Val 5))\<lparr>symbol := Some PyNone\<rparr>"

definition df4 :: "coin list" where
  "df4 = [coin_a, coin_f, coin_b]"

definition df5 :: "coin list" where
  "df5 = [coin_c, coin_d]"

definition df6 :: "coin list" where
  "df6 = [coin_e, coin_b]"

text \<open>A record with an empty symbol, and an exchange whose only lookup method raises.\<close>

definition coin_g :: coin where
  "coin_g = coin_b\<lparr>symbol := Some (Val [])\<rparr>"

definition exchange_camel :: exchange where
  "exchange_camel =
     \<lparr>fetch_funding_rate = None,
      fetchFundingRate = Some (\<lambda>s. Raises ''bad symbol''),
      fetchFundingRates = None\<rparr>"

definition env_camel :: env where
  "env_camel = env1\<lparr>CCXT_AVAILABLE := True, ccxt := (\<lambda>n. Returns exchange_camel)\<rparr>"

section \<open>Properties of the rank filter\<close>

lemma select_mask_map: "select_mask xs (map P xs) = filter P xs"
  by (induction xs) (simp_all add: select_mask_def)

lemma between_window:
  "between (of_int (RANK_MIN cfg)) (of_int (RANK_MAX cfg)) (cell_of (market_cap_rank r))
     = in_rank_window cfg r"
proof (cases "market_cap_rank r")
  case None
  then show ?thesis by (simp add: cell_of_def in_rank_window_def)
next
  case (Some c)
  then show ?thesis by (cases c) (auto simp: cell_of_def in_rank_window_def)
qed

lemma rank_filter_filter: "rank_filter cfg df = filter (in_rank_window cfg) df"
proof -
  have "rank_mask cfg df = map (in_rank_window cfg) df"
    by (simp add: rank_mask_def between_window)
  then show ?thesis by (simp add: rank_filter_def select_mask_map)
qed

text \<open>
  C6. The rank filter keeps exactly the records whose rank lies in the closed interval
  from \<open>RANK_MIN\<close> to \<open>RANK_MAX\<close>, in the input's order, and introduces no record and no
  duplicate that the input does not have.
\<close>

theorem rank_filter_closed_interval:
  "set (rank_filter cfg df) = {r \<in> set df. in_rank_window cfg r}
   \<and> subseq (rank_filter cfg df) df
   \<and> mset (rank_filter cfg df) \<subseteq># mset df
   \<and> (\<forall>r. count_list (rank_filter cfg df) r
          = (if in_rank_window cfg r then count_list df r else 0))"
proof -
  have c: "count_list (filter P xs) r = (if P r then count_list xs r else 0)"
    for P and xs :: "coin list" and r
    by (induction xs) auto
  show ?thesis
    unfolding rank_filter_filter
    by (simp add: c)
qed

theorem rank_filter_closed_interval_witness:
  "set (rank_filter cfg0 df1) = {r \<in> set df1. in_rank_window cfg0 r}
   \<and> rank_filter cfg0 df1 = [coin_a, coin_b, coin_e]
   \<and> subseq [coin_a, coin_b, coin_e] df1"
proof -
  have "rank_filter cfg0 df1 = [coin_a, coin_b, coin_e]" by code_simp
  then show ?thesis using rank_filter_closed_interval [of cfg0 df1] by simp
qed

section \<open>The quorum rule and the row loop\<close>

lemma length_reasons_of:
  "length (reasons_of cfg med vol h1 h24) = count_true [cond_1h cfg h1, cond_24h cfg h24, cond_vol cfg med vol]"
  by (simp add: reasons_of_def count_true_def)

lemma eval_row_cases:
  "fst (eval_row cfg env df med row) =
     (case py_upper (row_get df (raw row) symbol (Val [])) of
        Inl e \<Rightarrow> Inl e
      | Inr symb \<Rightarrow>
         (case py_int (row_get df (raw row) market_cap_rank (Val (- 1))) of
            Inl e \<Rightarrow> Inl e
          | Inr rank \<Rightarrow>
             Inr (if 2 \<le> count_true (conditions cfg med row)
                  then Some \<lparr>c_id = row_get df (raw row) id_key PyNone,
                       c_name = row_get df (raw row) name (row_get df (raw row) id_key PyNone),
                       c_symbol = symb, c_rank = rank,
                       c_price = row_get df (raw row) current_price NaN,
                       c_vol = float_or_0 (total_volume_sel row),
                       c_1h = float_or_0 (price_change_1h row),
                       c_24h = float_or_0 (price_change_24h_sel row),
                       c_reasons = reasons_of cfg med (float_or_0 (total_volume_sel row))
                          (float_or_0 (price_change_1h row)) (float_or_0 (price_change_24h_sel row)),
                       c_funding = (if CCXT_AVAILABLE env then fst (funding_loop env (try_symbols symb)) else None)\<rparr>
                  else None)))"
  by (simp add: eval_row_def Let_def length_reasons_of conditions_def split: sum.splits)

lemma eval_row_trace:
  "snd (eval_row cfg env df med row) =
     (case py_upper (row_get df (raw row) symbol (Val [])) of
        Inl e \<Rightarrow> []
      | Inr symb \<Rightarrow>
         (case py_int (row_get df (raw row) market_cap_rank (Val (- 1))) of
            Inl e \<Rightarrow> []
          | Inr rank \<Rightarrow> if CCXT_AVAILABLE env then snd (funding_loop env (try_symbols symb)) else []))"
  by (simp add: eval_row_def Let_def split: sum.splits)

lemma count_true_perm: "mset bs = mset cs \<Longrightarrow> count_true bs = count_true cs"
  unfolding count_true_def
  by (metis mset_filter size_mset)

text \<open>
  C1. A row becomes a candidate exactly when its evaluation raises no fault and at least
  2 of its 3 conditions hold (1-hour change at least \<open>MIN_1H_PCT\<close>, 24-hour change at
  least \<open>MIN_24H_PCT\<close>, volume at least the median volume times \<open>VOLUME_MULTIPLIER\<close>).
  The count does not depend on the order of the conditions, at least 2 of 3 means one of
  the three pairs, and the volume condition is false unless the median volume is above 0.
\<close>

theorem candidate_iff_two_of_three:
  "((\<exists>c. fst (eval_row cfg env df med row) = Inr (Some c))
      \<longleftrightarrow> \<not> isl (fst (eval_row cfg env df med row)) \<and> 2 \<le> count_true (conditions cfg med row))
   \<and> (\<forall>bs. mset bs = mset (conditions cfg med row)
          \<longrightarrow> count_true bs = count_true (conditions cfg med row))
   \<and> (2 \<le> count_true (conditions cfg med row)
        \<longleftrightarrow> (cond_1h cfg (float_or_0 (price_change_1h row))
               \<and> cond_24h cfg (float_or_0 (price_change_24h_sel row)))
          \<or> (cond_1h cfg (float_or_0 (price_change_1h row))
               \<and> cond_vol cfg med (float_or_0 (total_volume_sel row)))
          \<or> (cond_24h cfg (float_or_0 (price_change_24h_sel row))
               \<and> cond_vol cfg med (float_or_0 (total_volume_sel row))))
   \<and> (\<not> f_gt med (Fin 0) \<longrightarrow> \<not> cond_vol cfg med (float_or_0 (total_volume_sel row)))"
proof (intro conjI)
  show "(\<exists>c. fst (eval_row cfg env df med row) = Inr (Some c))
      \<longleftrightarrow> \<not> isl (fst (eval_row cfg env df med row)) \<and> 2 \<le> count_true (conditions cfg med row)"
    unfolding eval_row_cases by (simp split: sum.splits)
  show "\<forall>bs. mset bs = mset (conditions cfg med row)
          \<longrightarrow> count_true bs = count_true (conditions cfg med row)"
    using count_true_perm by blast
  show "2 \<le> count_true (conditions cfg med row)
        \<longleftrightarrow> (cond_1h cfg (float_or_0 (price_change_1h row))
               \<and> cond_24h cfg (float_or_0 (price_change_24h_sel row)))
          \<or> (cond_1h cfg (float_or_0 (price_change_1h row))
               \<and> cond_vol cfg med (float_or_0 (total_volume_sel row)))
          \<or> (cond_24h cfg (float_or_0 (price_change_24h_sel row))
               \<and> cond_vol cfg med (float_or_0 (total_volume_sel row)))"
    by (simp add: conditions_def count_true_def)
  show "\<not> f_gt med (Fin 0) \<longrightarrow> \<not> cond_vol cfg med (float_or_0 (total_volume_sel row))"
    by (simp add: cond_vol_def)
qed

theorem candidate_iff_two_of_three_witness:
  "(\<exists>c. fst (eval_row cfg0 env1 df1 (Fin 100) (prepare df1 coin_b)) = Inr (Some c))
   \<and> conditions cfg0 (Fin 100) (prepare df1 coin_b) = [True, False, True]
   \<and> count_true [True, True, False] = count_true (conditions cfg0 (Fin 100) (prepare df1 coin_b))
   \<and> \<not> (\<exists>c. fst (eval_row cfg0 env1 df1 (Fin 0) (prepare df1 coin_b)) = Inr (Some c))"
proof -
  let ?row = "prepare df1 coin_b"
  have a: "\<not> isl (fst (eval_row cfg0 env1 df1 (Fin 100) ?row))" by code_simp
  have b: "conditions cfg0 (Fin 100) ?row = [True, False, True]" by code_simp
  have c: "conditions cfg0 (Fin 0) ?row = [True, False, False]" by code_simp
  have d: "2 \<le> count_true [True, False, True]" "\<not> 2 \<le> count_true [True, False, False]"
    by (simp_all add: count_true_def)
  note t100 = candidate_iff_two_of_three [of cfg0 env1 df1 "Fin 100" ?row]
  note t0 = candidate_iff_two_of_three [of cfg0 env1 df1 "Fin 0" ?row]
  have 1: "\<exists>c. fst (eval_row cfg0 env1 df1 (Fin 100) ?row) = Inr (Some c)"
    using t100 [THEN conjunct1] a b d(1) by simp
  have 2: "count_true [True, True, False] = count_true (conditions cfg0 (Fin 100) ?row)"
    using t100 [THEN conjunct2, THEN conjunct1, rule_format, of "[True, True, False]"] b by simp
  have 3: "\<not> (\<exists>c. fst (eval_row cfg0 env1 df1 (Fin 0) ?row) = Inr (Some c))"
    using t0 [THEN conjunct1] c d(2) by simp
  show ?thesis using 1 2 3 b by simp
qed

text \<open>
  A row that raises is not a candidate whatever its conditions are: \<open>coin_f\<close> is in the
  rank window and satisfies the 1-hour and the 24-hour condition, but its symbol is a
  JSON null, so \<open>.upper()\<close> raises and the row is skipped.
\<close>

theorem faulting_row_counterexample:
  "coin_f \<in> set (rank_filter cfg0 df4)
   \<and> conditions cfg0 (median_vol (selected cfg0 df4)) (prepare df4 coin_f) = [True, True, False]
   \<and> fst (eval_row cfg0 env1 df4 (median_vol (selected cfg0 df4)) (prepare df4 coin_f))
       = Inl AttributeError
   \<and> candidates_of cfg0 env1 df4 = []"
  by code_simp

lemma email_calls_append: "email_calls (a @ b) = email_calls a @ email_calls b"
  by (induction a rule: email_calls.induct) simp_all

lemma funding_calls_append: "funding_calls (a @ b) = funding_calls a @ funding_calls b"
  by (induction a rule: funding_calls.induct) simp_all

lemma row_errors_append: "row_errors (a @ b) = row_errors a + row_errors b"
  by (induction a rule: row_errors.induct) simp_all

lemma funding_loop_no_email: "email_calls (snd (funding_loop env ss)) = []"
  by (induction ss) (simp_all add: Let_def case_prod_beta)

lemma funding_loop_no_row_error: "row_errors (snd (funding_loop env ss)) = 0"
  by (induction ss) (simp_all add: Let_def case_prod_beta)

lemma eval_row_no_email: "email_calls (snd (eval_row cfg env df med row)) = []"
  by (simp add: eval_row_trace funding_loop_no_email split: sum.splits)

lemma eval_row_no_row_error: "row_errors (snd (eval_row cfg env df med row)) = 0"
  by (simp add: eval_row_trace funding_loop_no_row_error split: sum.splits)

lemma scan_rows_no_email: "email_calls (snd (scan_rows cfg env df med rows cands)) = []"
proof (induction rows arbitrary: cands)
  case Nil
  show ?case by simp
next
  case (Cons row rows)
  obtain res t where e: "eval_row cfg env df med row = (res, t)" by (cases "eval_row cfg env df med row")
  have t: "email_calls t = []" using eval_row_no_email [of cfg env df med row] e by simp
  show ?case using Cons.IH t e
    by (simp add: email_calls_append case_prod_beta split: sum.splits option.splits)
qed

lemma scan_rows_candidates:
  "fst (scan_rows cfg env df med rows cands)
     = cands @ concat (map (\<lambda>row. kept (fst (eval_row cfg env df med row))) rows)"
proof (induction rows arbitrary: cands)
  case Nil
  show ?case by simp
next
  case (Cons row rows)
  show ?case
    by (cases "eval_row cfg env df med row")
       (simp add: Cons.IH kept_def case_prod_beta split: sum.splits option.splits)
qed

lemma scan_rows_errors:
  "row_errors (snd (scan_rows cfg env df med rows cands))
     = length (filter (\<lambda>row. isl (fst (eval_row cfg env df med row))) rows)"
proof (induction rows arbitrary: cands)
  case Nil
  show ?case by simp
next
  case (Cons row rows)
  obtain res t where e: "eval_row cfg env df med row = (res, t)" by (cases "eval_row cfg env df med row")
  have t: "row_errors t = 0" using eval_row_no_row_error [of cfg env df med row] e by simp
  show ?case using Cons.IH t e
    by (simp add: row_errors_append case_prod_beta split: sum.splits option.splits)
qed

text \<open>
  C8. A fault raised while one row is evaluated is caught and logged, and the remaining
  rows are still evaluated: the candidate list is the one obtained from each row on its
  own, it is the list obtained from the rows that do not fault, and one error is logged
  for each faulting row.
\<close>

theorem row_fault_isolated:
  "fst (scan_rows cfg env df med rows cands)
     = cands @ concat (map (\<lambda>row. kept (fst (eval_row cfg env df med row))) rows)
   \<and> fst (scan_rows cfg env df med rows cands)
     = fst (scan_rows cfg env df med
              (filter (\<lambda>row. \<not> isl (fst (eval_row cfg env df med row))) rows) cands)
   \<and> row_errors (snd (scan_rows cfg env df med rows cands))
     = length (filter (\<lambda>row. isl (fst (eval_row cfg env df med row))) rows)"
proof -
  have "concat (map (\<lambda>row. kept (fst (eval_row cfg env df med row))) rows)
      = concat (map (\<lambda>row. kept (fst (eval_row cfg env df med row)))
           (filter (\<lambda>row. \<not> isl (fst (eval_row cfg env df med row))) rows))"
    by (induction rows) (auto simp: kept_def isl_def)
  then show ?thesis
    by (simp add: scan_rows_candidates scan_rows_errors)
qed

theorem row_fault_isolated_witness:
  "isl (fst (eval_row cfg0 env1 df4 (Fin 100) (prepare df4 coin_f)))
   \<and> map c_symbol (fst (scan_rows cfg0 env1 df4 (Fin 100) (selected cfg0 df4) [])) = [''BBB'']
   \<and> row_errors (snd (scan_rows cfg0 env1 df4 (Fin 100) (selected cfg0 df4) [])) = 1"
proof -
  let ?ev = "\<lambda>row. fst (eval_row cfg0 env1 df4 (Fin 100) row)"
  have a: "isl (?ev (prepare df4 coin_f))" by code_simp
  have b: "map c_symbol (concat (map (\<lambda>row. kept (?ev row)) (selected cfg0 df4))) = [''BBB'']"
    by code_simp
  have c: "length (filter (\<lambda>row. isl (?ev row)) (selected cfg0 df4)) = 1" by code_simp
  show ?thesis
    using row_fault_isolated [of cfg0 env1 df4 "Fin 100" "selected cfg0 df4" "[]"] a b c
    by simp
qed

section \<open>Exclusion of absent ranks, the report and the notifier\<close>

text \<open>
  C10. A record whose own rank is absent (\<open>None\<close> or \<open>nan\<close>) is dropped by the rank
  filter without an error: it is not among the filtered records, the filter gives the
  same result as on the frame without it, and it is not among the rows that are evaluated.
\<close>

theorem absent_rank_excluded:
  "isna (cell_of (market_cap_rank r)) \<Longrightarrow>
     r \<notin> set (rank_filter cfg df)
     \<and> rank_filter cfg (xs @ r # ys) = rank_filter cfg (xs @ ys)
     \<and> r \<notin> raw ` set (selected cfg df)"
proof -
  assume a: "isna (cell_of (market_cap_rank r))"
  have n: "\<not> in_rank_window cfg r"
    using a by (auto simp: in_rank_window_def isna_def cell_of_def)
  have "raw ` set (selected cfg df) = set (rank_filter cfg df)"
    by (simp add: selected_def prepare_def image_image)
  with n show ?thesis by (simp add: rank_filter_filter)
qed

theorem absent_rank_excluded_witness:
  "isna (cell_of (market_cap_rank coin_c)) \<and> coin_c \<in> set df1
   \<and> coin_c \<notin> set (rank_filter cfg0 df1)
   \<and> rank_filter cfg0 ([coin_a, coin_b] @ coin_c # [coin_d, coin_e])
       = rank_filter cfg0 ([coin_a, coin_b] @ [coin_d, coin_e])"
proof -
  have h: "isna (cell_of (market_cap_rank coin_c))" by code_simp
  have m: "coin_c \<in> set df1" by (simp add: df1_def)
  show ?thesis
    using h m absent_rank_excluded [OF h, of cfg0 df1 "[coin_a, coin_b]" "[coin_d, coin_e]"]
    by simp
qed

lemma render_rows_ranks: "render_rows cs = Inr rs \<Longrightarrow> map r_rank rs = map c_rank cs"
proof (induction cs arbitrary: rs)
  case Nil
  then show ?case by simp
next
  case (Cons c cs)
  then show ?case
    by (auto simp: render_row_def split: sum.splits pyfloat.splits)
qed

lemma render_report_ranks:
  "render_report cfg candidates = Inr rep \<Longrightarrow>
     map r_rank (table rep) = map c_rank (sort_key c_rank candidates)"
  by (auto simp: render_report_def split: sum.splits dest: render_rows_ranks)

lemma send_email_calls:
  "email_calls (snd (send_email cfg env subj b)) = [(subj, b)]"
  by (simp add: send_email_def split: option.splits)

lemma scan_frame_report:
  assumes "(s, Report rep) \<in> set (email_calls (snd (scan_frame cfg env df)))"
  shows "render_report cfg (candidates_of cfg env df) = Inr rep"
proof -
  let ?sr = "scan_rows cfg env df (median_vol (selected cfg df)) (selected cfg df) []"
  let ?se = "\<lambda>html. send_email cfg env (Candidates_found (length (fst ?sr))) (Report html)"
  have t1: "email_calls (snd ?sr) = []" by (rule scan_rows_no_email)
  show ?thesis
  proof (cases "render_report cfg (fst ?sr)")
    case (Inl e)
    with assms t1 show ?thesis
      by (simp add: scan_frame_def Let_def case_prod_beta email_calls_append split: if_splits)
  next
    case (Inr html)
    have t2: "email_calls (snd (?se html)) = [(Candidates_found (length (fst ?sr)), Report html)]"
      by (rule send_email_calls)
    from assms t1 t2 Inr have "rep = html"
      by (cases "fst (?se html)")
         (auto simp: scan_frame_def Let_def case_prod_beta email_calls_append split: if_splits)
    with Inr show ?thesis by (simp add: candidates_of_def)
  qed
qed

lemma scan_body_report:
  assumes "(s, Report rep) \<in> set (email_calls (snd (scan_body cfg env)))"
  shows "\<exists>df. render_report cfg (candidates_of cfg env df) = Inr rep"
proof (cases "fetch_coingecko_markets env")
  case (Raises e)
  with assms show ?thesis by (simp add: scan_body_def)
next
  case (Returns j)
  show ?thesis
  proof (cases j)
    case JsonOther
    with assms Returns show ?thesis by (simp add: scan_body_def)
  next
    case (JsonList df)
    with assms Returns have "(s, Report rep) \<in> set (email_calls (snd (scan_frame cfg env df)))"
      by (simp add: scan_body_def case_prod_beta split: if_splits)
    then show ?thesis using scan_frame_report by blast
  qed
qed

lemma run_scan_report:
  assumes "(s, Report rep) \<in> set (email_calls (snd (run_scan cfg env)))"
  shows "\<exists>df. render_report cfg (candidates_of cfg env df) = Inr rep"
proof -
  obtain res t where b: "scan_body cfg env = (res, t)" by (cases "scan_body cfg env")
  have "(s, Report rep) \<in> set (email_calls t)"
  proof (cases res)
    case (Inr u)
    with assms b show ?thesis by (simp add: run_scan_def)
  next
    case (Inl e)
    have "email_calls (snd (send_email cfg env Scanner_ERROR (Crash e))) = [(Scanner_ERROR, Crash e)]"
      by (rule send_email_calls)
    with assms b Inl show ?thesis
      by (cases "fst (send_email cfg env Scanner_ERROR (Crash e))")
         (auto simp: run_scan_def case_prod_beta email_calls_append)
  qed
  then show ?thesis using scan_body_report [of s rep cfg env] b by simp
qed

text \<open>
  C9. A rendered report lists the candidates in non-decreasing order of rank, and the
  ranks listed are those of the candidates. This holds in particular for every report
  that a run hands to the notifier.
\<close>

theorem report_in_ascending_rank:
  "(render_report cfg candidates = Inr rep \<longrightarrow>
      sorted (map r_rank (table rep))
      \<and> mset (map r_rank (table rep)) = mset (map c_rank candidates))
   \<and> ((subj, Report sent) \<in> set (email_calls (snd (run_scan cfg env))) \<longrightarrow>
      sorted (map r_rank (table sent)))"
proof (intro conjI impI)
  assume r: "render_report cfg candidates = Inr rep"
  show "sorted (map r_rank (table rep))"
    by (simp add: render_report_ranks [OF r])
  have "mset (map c_rank (sort_key c_rank candidates)) = mset (map c_rank candidates)"
    by (metis mset_map mset_sort)
  then show "mset (map r_rank (table rep)) = mset (map c_rank candidates)"
    by (simp add: render_report_ranks [OF r])
next
  assume "(subj, Report sent) \<in> set (email_calls (snd (run_scan cfg env)))"
  then obtain df where "render_report cfg (candidates_of cfg env df) = Inr sent"
    using run_scan_report by blast
  then show "sorted (map r_rank (table sent))"
    by (simp add: render_report_ranks)
qed

theorem report_in_ascending_rank_witness:
  "map c_rank (candidates_of cfg0 (env0 (Returns (JsonList df6))) df6) = [100, 55]
   \<and> map r_rank (table (projr (render_report cfg0 (candidates_of cfg0 (env0 (Returns (JsonList df6))) df6))))
       = [55, 100]
   \<and> sorted (map r_rank (table (projr (render_report cfg0 (candidates_of cfg0 (env0 (Returns (JsonList df6))) df6)))))"
proof -
  let ?cs = "candidates_of cfg0 (env0 (Returns (JsonList df6))) df6"
  have a: "map c_rank ?cs = [100, 55]" by code_simp
  have b: "render_report cfg0 ?cs = Inr (projr (render_report cfg0 ?cs))" by code_simp
  have c: "map r_rank (table (projr (render_report cfg0 ?cs))) = [55, 100]" by code_simp
  show ?thesis
    using report_in_ascending_rank [of cfg0 ?cs "projr (render_report cfg0 ?cs)", THEN conjunct1] a b c
    by simp
qed

lemma send_email_no_funding:
  "funding_calls (snd (send_email cfg env subj b)) = []"
  by (simp add: send_email_def split: option.splits)

lemma send_email_no_row_error:
  "row_errors (snd (send_email cfg env subj b)) = 0"
  by (simp add: send_email_def split: option.splits)

lemma scan_frame_no_candidates:
  assumes "rank_filter cfg df = [] \<or> candidates_of cfg env df = []"
  shows "scan_frame cfg env df = (Inr (), snd (scan_frame cfg env df))
         \<and> email_calls (snd (scan_frame cfg env df)) = []"
proof (cases "\<not> has_col df market_cap_rank \<or> rank_filter cfg df = []")
  case True
  then show ?thesis by (auto simp: scan_frame_def)
next
  case False
  with assms have c: "fst (scan_rows cfg env df (median_vol (selected cfg df)) (selected cfg df) []) = []"
    by (simp add: candidates_of_def)
  from False c show ?thesis
    by (simp add: scan_frame_def Let_def case_prod_beta email_calls_append scan_rows_no_email)
qed

text \<open>
  C7. A run with zero filtered records or with zero candidates ends normally: the
  \<open>try\<close> block raises nothing, and \<open>send_email\<close> is not called.
\<close>

theorem no_candidates_no_notification:
  assumes "fetch_coingecko_markets env = Returns (JsonList df)"
    and "rank_filter cfg df = [] \<or> candidates_of cfg env df = []"
  shows "fst (scan_body cfg env) = Inr ()
         \<and> fst (run_scan cfg env) = Inr ()
         \<and> email_calls (snd (run_scan cfg env)) = []"
proof (cases "df = []")
  case True
  with assms(1) show ?thesis by (simp add: run_scan_def scan_body_def)
next
  case False
  obtain t where s: "scan_frame cfg env df = (Inr (), t)" and e: "email_calls t = []"
    using scan_frame_no_candidates [OF assms(2)] by metis
  from False assms(1) s e show ?thesis by (simp add: run_scan_def scan_body_def)
qed

theorem no_candidates_no_notification_witness:
  "rank_filter cfg0 df5 = []
   \<and> fst (run_scan cfg0 (env0 (Returns (JsonList df5)))) = Inr ()
   \<and> email_calls (snd (run_scan cfg0 (env0 (Returns (JsonList df5))))) = []
   \<and> rank_filter cfg0 [coin_a] \<noteq> []
   \<and> candidates_of cfg0 (env0 (Returns (JsonList [coin_a]))) [coin_a] = []
   \<and> email_calls (snd (run_scan cfg0 (env0 (Returns (JsonList [coin_a]))))) = []"
proof -
  have f: "fetch_coingecko_markets (env0 (Returns (JsonList df))) = Returns (JsonList df)" for df
    by (simp add: env0_def)
  have a: "rank_filter cfg0 df5 = []" by code_simp
  have b: "rank_filter cfg0 [coin_a] \<noteq> []" by code_simp
  have c: "candidates_of cfg0 (env0 (Returns (JsonList [coin_a]))) [coin_a] = []" by code_simp
  show ?thesis
    using no_candidates_no_notification [OF f, of cfg0 df5]
      no_candidates_no_notification [OF f, of cfg0 "[coin_a]"] a b c
    by simp
qed

text \<open>
  C4. When the fetch step faults, no row is evaluated, the crash notification carrying
  the fault is attempted once, and the run ends without raising, also when the notifier
  is not configured or the crash send fails. When the provider returns an empty list or
  something that is not a list, the run logs an error and ends, with no row evaluated and
  no notification attempted.
\<close>

theorem fetch_fault_aborts_run:
  "(fetch_coingecko_markets env = Raises e \<longrightarrow>
      fst (run_scan cfg env) = Inr ()
      \<and> snd (run_scan cfg env)
          = Log_info ''Starting scan'' # Log_exception ''Scan aborted due to exception''
            # snd (send_email cfg env Scanner_ERROR (Crash (External e)))
            @ (if isl (fst (send_email cfg env Scanner_ERROR (Crash (External e))))
               then [Log_exception ''Also failed to send crash email''] else [])
      \<and> email_calls (snd (run_scan cfg env)) = [(Scanner_ERROR, Crash (External e))]
      \<and> funding_calls (snd (run_scan cfg env)) = []
      \<and> row_errors (snd (run_scan cfg env)) = 0)
   \<and> (fetch_coingecko_markets env = Returns JsonOther
        \<or> fetch_coingecko_markets env = Returns (JsonList []) \<longrightarrow>
      run_scan cfg env
        = (Inr (), [Log_info ''Starting scan'', Log_error ''No market data from CoinGecko'']))"
proof (intro conjI impI)
  assume f: "fetch_coingecko_markets env = Raises e"
  obtain r t where s: "send_email cfg env Scanner_ERROR (Crash (External e)) = (r, t)"
    by (cases "send_email cfg env Scanner_ERROR (Crash (External e))")
  have c: "email_calls t = [(Scanner_ERROR, Crash (External e))]"
    using send_email_calls [of cfg env Scanner_ERROR "Crash (External e)"] s by simp
  have u: "funding_calls t = []"
    using send_email_no_funding [of cfg env Scanner_ERROR "Crash (External e)"] s by simp
  have v: "row_errors t = 0"
    using send_email_no_row_error [of cfg env Scanner_ERROR "Crash (External e)"] s by simp
  show "fst (run_scan cfg env) = Inr ()"
    using f s by (simp add: run_scan_def scan_body_def split: sum.splits)
  show "snd (run_scan cfg env)
          = Log_info ''Starting scan'' # Log_exception ''Scan aborted due to exception''
            # snd (send_email cfg env Scanner_ERROR (Crash (External e)))
            @ (if isl (fst (send_email cfg env Scanner_ERROR (Crash (External e))))
               then [Log_exception ''Also failed to send crash email''] else [])"
    using f s by (simp add: run_scan_def scan_body_def split: sum.splits)
  show "email_calls (snd (run_scan cfg env)) = [(Scanner_ERROR, Crash (External e))]"
    using f s c by (simp add: run_scan_def scan_body_def email_calls_append split: sum.splits)
  show "funding_calls (snd (run_scan cfg env)) = []"
    using f s u by (simp add: run_scan_def scan_body_def funding_calls_append split: sum.splits)
  show "row_errors (snd (run_scan cfg env)) = 0"
    using f s v by (simp add: run_scan_def scan_body_def row_errors_append split: sum.splits)
next
  assume "fetch_coingecko_markets env = Returns JsonOther
        \<or> fetch_coingecko_markets env = Returns (JsonList [])"
  then show "run_scan cfg env
        = (Inr (), [Log_info ''Starting scan'', Log_error ''No market data from CoinGecko''])"
    by (auto simp: run_scan_def scan_body_def)
qed

text \<open>
  When the provider returns an empty list, the run logs an error and returns from inside
  the \<open>try\<close> block: \<open>send_email\<close> is not called at all.
\<close>

theorem empty_result_counterexample:
  "fetch_coingecko_markets (env0 (Returns (JsonList []))) = Returns (JsonList [])
   \<and> email_calls (snd (run_scan cfg0 (env0 (Returns (JsonList []))))) = []"
  by (simp add: env0_def run_scan_def scan_body_def)

theorem fetch_fault_aborts_run_witness:
  "fst (run_scan cfg_unconfigured (env0 (Raises ''timeout''))) = Inr ()
   \<and> email_calls (snd (run_scan cfg_unconfigured (env0 (Raises ''timeout''))))
       = [(Scanner_ERROR, Crash (External ''timeout''))]
   \<and> snd (run_scan cfg_unconfigured (env0 (Raises ''timeout'')))
       = [Log_info ''Starting scan'', Log_exception ''Scan aborted due to exception'',
          Email_call Scanner_ERROR (Crash (External ''timeout'')),
          Log_warning ''SMTP or recipient not configured. Skipping email send.'']
   \<and> run_scan cfg0 (env0 (Returns JsonOther))
       = (Inr (), [Log_info ''Starting scan'', Log_error ''No market data from CoinGecko''])"
proof -
  have f: "fetch_coingecko_markets (env0 j) = j" for j by (simp add: env0_def)
  have s: "send_email cfg_unconfigured (env0 (Raises ''timeout'')) Scanner_ERROR
             (Crash (External ''timeout''))
           = (Inr (False, ''SMTP/recipient not configured''),
              [Email_call Scanner_ERROR (Crash (External ''timeout'')),
               Log_warning ''SMTP or recipient not configured. Skipping email send.''])"
    by (simp add: send_email_def cfg_unconfigured_def cfg0_def)
  show ?thesis
    using fetch_fault_aborts_run [of "env0 (Raises ''timeout'')" "''timeout''" cfg_unconfigured]
      fetch_fault_aborts_run [of "env0 (Returns JsonOther)" "''timeout''" cfg0] f s
    by simp
qed

section \<open>The funding-rate lookup is best effort\<close>

lemma funding_loop_calls: "funding_calls (snd (funding_loop env ss)) = attempts env ss"
  by (induction ss) (simp_all add: attempts_def Let_def case_prod_beta)

lemma funding_loop_result: "fst (funding_loop env ss) = first_success env ss"
  by (induction ss) (simp_all add: first_success_def Let_def case_prod_beta)

lemma try_fetch_tolerant:
  "\<not> CCXT_AVAILABLE env \<or> ccxt env x = Raises e \<Longrightarrow> try_fetch_funding_rate env x s = None"
  by (auto simp: try_fetch_funding_rate_def)

lemma attempts_first: "ss \<noteq> [] \<Longrightarrow> take 1 (attempts env ss) = take 1 ss"
  by (cases ss) (simp_all add: attempts_def Let_def)

lemma all_fail:
  "\<forall>s \<in> set ss. \<not> truthy (try_fetch_funding_rate env ''binance'' s) \<Longrightarrow>
     first_success env ss = None \<and> attempts env ss = ss"
  by (induction ss) (simp_all add: first_success_def attempts_def Let_def)

lemma try_symbols_guesses: "try_symbols symb = (if symb = [] then [] else guesses symb)"
  by (simp add: try_symbols_def guesses_def)

lemma attempts_Nil: "attempts env [] = []"
  by (simp add: attempts_def)

lemma first_success_Nil: "first_success env [] = None"
  by (simp add: first_success_def)

text \<open>
  C3. When the optional library is available, the funding-rate lookup is made for every
  row whose evaluation raises no fault and whose symbol is not empty, candidate or not:
  the guesses \<open>SYMBOL/USDT\<close>, \<open>SYMBOL/USD\<close>, \<open>SYMBOL/USDT:USDT\<close> are tried in this
  order, starting with the first, up to the first success, whose answer becomes the
  funding annotation. A row that faults, a row with an empty symbol, and every row when
  the library is absent, makes no lookup and gets no funding data. The lookups never
  change whether a row faults or is a candidate, nor any other field of the candidate.
  A lookup fails without raising and gives no funding data when the library is absent,
  when the exchange cannot be constructed, when the lookup method chosen raises, and when
  the exchange has none of the three methods; when every guess fails, all guesses are
  tried and the annotation is empty.
\<close>

theorem funding_lookup_best_effort:
  "(py_upper (row_get df (raw row) symbol (Val [])) = Inr symb
      \<and> \<not> isl (fst (eval_row cfg env df med row)) \<longrightarrow>
        funding_calls (snd (eval_row cfg env df med row))
          = (if CCXT_AVAILABLE env \<and> symb \<noteq> [] then attempts env (guesses symb) else [])
        \<and> (CCXT_AVAILABLE env \<and> symb \<noteq> [] \<longrightarrow>
              take 1 (funding_calls (snd (eval_row cfg env df med row))) = [symb @ ''/USDT''])
        \<and> (\<forall>c. fst (eval_row cfg env df med row) = Inr (Some c) \<longrightarrow>
              c_funding c
                = (if CCXT_AVAILABLE env \<and> symb \<noteq> [] then first_success env (guesses symb)
                   else None)))
   \<and> (isl (fst (eval_row cfg env df med row)) \<longrightarrow>
        funding_calls (snd (eval_row cfg env df med row)) = [])
   \<and> erase_funding (fst (eval_row cfg env df med row))
       = erase_funding (fst (eval_row cfg env' df med row))
   \<and> guesses symb = [symb @ ''/USDT'', symb @ ''/USD'', symb @ ''/USDT:USDT'']
   \<and> (\<not> CCXT_AVAILABLE env \<or> ccxt env x = Raises e \<longrightarrow>
        try_fetch_funding_rate env x s = None)
   \<and> (ccxt env x = Returns ex \<and> fetch_funding_rate ex = Some f \<and> f s = Raises e \<longrightarrow>
        try_fetch_funding_rate env x s = None)
   \<and> (ccxt env x = Returns ex \<and> fetch_funding_rate ex = None
        \<and> fetchFundingRate ex = Some f \<and> f s = Raises e \<longrightarrow>
        try_fetch_funding_rate env x s = None)
   \<and> (ccxt env x = Returns ex \<and> fetch_funding_rate ex = None \<and> fetchFundingRate ex = None
        \<and> fetchFundingRates ex = Some g \<and> g [s] = Raises e \<longrightarrow>
        try_fetch_funding_rate env x s = None)
   \<and> (ccxt env x = Returns ex \<and> fetch_funding_rate ex = None \<and> fetchFundingRate ex = None
        \<and> fetchFundingRates ex = None \<longrightarrow>
        try_fetch_funding_rate env x s = None)
   \<and> ((\<forall>s \<in> set ss. try_fetch_funding_rate env ''binance'' s = None) \<longrightarrow>
        first_success env ss = None \<and> attempts env ss = ss)"
proof (intro conjI impI allI)
  assume a: "py_upper (row_get df (raw row) symbol (Val [])) = Inr symb
      \<and> \<not> isl (fst (eval_row cfg env df med row))"
  then show calls: "funding_calls (snd (eval_row cfg env df med row))
          = (if CCXT_AVAILABLE env \<and> symb \<noteq> [] then attempts env (guesses symb) else [])"
    by (simp add: eval_row_trace eval_row_cases funding_loop_calls try_symbols_guesses
          attempts_Nil split: sum.splits)
  {
    assume "CCXT_AVAILABLE env \<and> symb \<noteq> []"
    moreover have "take 1 (attempts env (guesses symb)) = take 1 (guesses symb)"
      by (rule attempts_first) (simp add: guesses_def)
    ultimately show "take 1 (funding_calls (snd (eval_row cfg env df med row))) = [symb @ ''/USDT'']"
      by (simp add: calls guesses_def)
  }
  fix c
  assume "fst (eval_row cfg env df med row) = Inr (Some c)"
  with a show "c_funding c
                = (if CCXT_AVAILABLE env \<and> symb \<noteq> [] then first_success env (guesses symb)
                   else None)"
    by (auto simp: eval_row_cases funding_loop_result try_symbols_guesses first_success_Nil
          split: sum.splits if_splits)
next
  assume "isl (fst (eval_row cfg env df med row))"
  then show "funding_calls (snd (eval_row cfg env df med row)) = []"
    by (simp add: eval_row_trace eval_row_cases split: sum.splits)
next
  show "erase_funding (fst (eval_row cfg env df med row))
       = erase_funding (fst (eval_row cfg env' df med row))"
    by (simp add: eval_row_cases erase_funding_def split: sum.splits)
next
  show "guesses symb = [symb @ ''/USDT'', symb @ ''/USD'', symb @ ''/USDT:USDT'']"
    by (simp add: guesses_def)
next
  assume "\<not> CCXT_AVAILABLE env \<or> ccxt env x = Raises e"
  then show "try_fetch_funding_rate env x s = None"
    by (rule try_fetch_tolerant)
next
  assume "ccxt env x = Returns ex \<and> fetch_funding_rate ex = Some f \<and> f s = Raises e"
  then show "try_fetch_funding_rate env x s = None"
    by (simp add: try_fetch_funding_rate_def)
next
  assume "ccxt env x = Returns ex \<and> fetch_funding_rate ex = None
        \<and> fetchFundingRate ex = Some f \<and> f s = Raises e"
  then show "try_fetch_funding_rate env x s = None"
    by (simp add: try_fetch_funding_rate_def)
next
  assume "ccxt env x = Returns ex \<and> fetch_funding_rate ex = None \<and> fetchFundingRate ex = None
        \<and> fetchFundingRates ex = Some g \<and> g [s] = Raises e"
  then show "try_fetch_funding_rate env x s = None"
    by (simp add: try_fetch_funding_rate_def)
next
  assume "ccxt env x = Returns ex \<and> fetch_funding_rate ex = None \<and> fetchFundingRate ex = None
        \<and> fetchFundingRates ex = None"
  then show "try_fetch_funding_rate env x s = None"
    by (simp add: try_fetch_funding_rate_def)
next
  assume n: "\<forall>s \<in> set ss. try_fetch_funding_rate env ''binance'' s = None"
  then have "\<forall>s \<in> set ss. \<not> truthy (try_fetch_funding_rate env ''binance'' s)"
    by (simp add: truthy_def)
  then show "first_success env ss = None" "attempts env ss = ss"
    using all_fail by blast+
qed

text \<open>
  The lookup is made before \<open>if signal:\<close>, hence also for a row that is not a candidate:
  \<open>coin_a\<close> satisfies no condition, and all three guesses are tried for it.
\<close>

theorem lookup_for_non_candidate_counterexample:
  "fst (eval_row cfg0 env_raising df1 (Fin 100) (prepare df1 coin_a)) = Inr None
   \<and> funding_calls (snd (eval_row cfg0 env_raising df1 (Fin 100) (prepare df1 coin_a)))
       = [''AAA/USDT'', ''AAA/USD'', ''AAA/USDT:USDT'']"
  by code_simp

theorem funding_lookup_best_effort_witness:
  "funding_calls (snd (eval_row cfg0 env_usd df1 (Fin 100) (prepare df1 coin_b)))
     = [''BBB/USDT'', ''BBB/USD'']
   \<and> map c_funding (kept (fst (eval_row cfg0 env_usd df1 (Fin 100) (prepare df1 coin_b))))
     = [Some [(''symbol'', ''BBB/USD''), (''fundingRate'', ''0.0001'')]]
   \<and> erase_funding (fst (eval_row cfg0 env_usd df1 (Fin 100) (prepare df1 coin_b)))
     = erase_funding (fst (eval_row cfg0 env_raising df1 (Fin 100) (prepare df1 coin_b)))
   \<and> length (kept (fst (eval_row cfg0 env_usd [coin_a, coin_g] (Fin 100)
                          (prepare [coin_a, coin_g] coin_g)))) = 1
   \<and> funding_calls (snd (eval_row cfg0 env_usd [coin_a, coin_g] (Fin 100)
                           (prepare [coin_a, coin_g] coin_g))) = []
   \<and> try_fetch_funding_rate env_camel ''binance'' ''BBB/USDT'' = None
   \<and> funding_calls (snd (eval_row cfg0 env_camel df1 (Fin 100) (prepare df1 coin_b)))
     = [''BBB/USDT'', ''BBB/USD'', ''BBB/USDT:USDT'']"
proof -
  let ?row = "prepare df1 coin_b"
  let ?dg = "[coin_a, coin_g]"
  let ?rg = "prepare ?dg coin_g"
  have a: "py_upper (row_get df1 (raw ?row) symbol (Val [])) = Inr ''BBB''
           \<and> \<not> isl (fst (eval_row cfg0 env_usd df1 (Fin 100) ?row))" by code_simp
  have a': "py_upper (row_get df1 (raw ?row) symbol (Val [])) = Inr ''BBB''
           \<and> \<not> isl (fst (eval_row cfg0 env_camel df1 (Fin 100) ?row))" by code_simp
  have ag: "py_upper (row_get ?dg (raw ?rg) symbol (Val [])) = Inr []
           \<and> \<not> isl (fst (eval_row cfg0 env_usd ?dg (Fin 100) ?rg))" by code_simp
  have b: "CCXT_AVAILABLE env_usd" "CCXT_AVAILABLE env_camel"
    by (simp_all add: env_usd_def env_camel_def)
  have c: "attempts env_usd (guesses ''BBB'') = [''BBB/USDT'', ''BBB/USD'']" by code_simp
  have d: "map c_funding (kept (fst (eval_row cfg0 env_usd df1 (Fin 100) ?row)))
             = [Some [(''symbol'', ''BBB/USD''), (''fundingRate'', ''0.0001'')]]" by code_simp
  have g: "length (kept (fst (eval_row cfg0 env_usd ?dg (Fin 100) ?rg))) = 1" by code_simp
  have x: "ccxt env_camel ''binance'' = Returns exchange_camel
           \<and> fetch_funding_rate exchange_camel = None
           \<and> fetchFundingRate exchange_camel = Some (\<lambda>s. Raises ''bad symbol'')"
    by (simp add: env_camel_def exchange_camel_def)
  note t = funding_lookup_best_effort [where df = df1 and row = ?row and symb = "''BBB''"
      and cfg = cfg0 and env = env_usd and med = "Fin 100" and env' = env_raising]
  note tg = funding_lookup_best_effort [where df = ?dg and row = ?rg and symb = "[]"
      and cfg = cfg0 and env = env_usd and med = "Fin 100"]
  note tc = funding_lookup_best_effort [where df = df1 and row = ?row and symb = "''BBB''"
      and cfg = cfg0 and env = env_camel and med = "Fin 100" and x = "''binance''"
      and ex = exchange_camel and f = "\<lambda>s. Raises ''bad symbol''" and e = "''bad symbol''"
      and ss = "guesses ''BBB''"]
  have 1: "funding_calls (snd (eval_row cfg0 env_usd df1 (Fin 100) ?row)) = [''BBB/USDT'', ''BBB/USD'']"
    using t [THEN conjunct1] a b c by simp
  have 2: "erase_funding (fst (eval_row cfg0 env_usd df1 (Fin 100) ?row))
     = erase_funding (fst (eval_row cfg0 env_raising df1 (Fin 100) ?row))"
    using t [THEN conjunct2, THEN conjunct2, THEN conjunct1] .
  have 3: "funding_calls (snd (eval_row cfg0 env_usd ?dg (Fin 100) ?rg)) = []"
    using tg [THEN conjunct1] ag by simp
  have none: "try_fetch_funding_rate env_camel ''binance'' s = None" for s
    using tc [where s = s, THEN conjunct2, THEN conjunct2, THEN conjunct2, THEN conjunct2,
      THEN conjunct2, THEN conjunct2, THEN conjunct1] x
    by simp
  have 5: "attempts env_camel (guesses ''BBB'') = guesses ''BBB''"
    using tc [THEN conjunct2, THEN conjunct2, THEN conjunct2, THEN conjunct2, THEN conjunct2,
      THEN conjunct2, THEN conjunct2, THEN conjunct2, THEN conjunct2] none
    by simp
  have 6: "funding_calls (snd (eval_row cfg0 env_camel df1 (Fin 100) ?row))
     = [''BBB/USDT'', ''BBB/USD'', ''BBB/USDT:USDT'']"
    using tc [THEN conjunct1] a' b 5 by (simp add: guesses_def)
  show ?thesis using 1 2 3 d g none 6 by simp
qed

section \<open>The median volume\<close>

lemma present_empty: "present col = [] \<longleftrightarrow> list_all isna col"
  by (induction col rule: present.induct) (simp_all add: isna_def)

lemma count_prefix:
  assumes "k \<le> length s" and "\<forall>i<k. P (s ! i)"
  shows "k \<le> length (filter P s)"
proof -
  have "\<forall>x \<in> set (take k s). P x"
    using assms by (auto simp: in_set_conv_nth)
  then have "filter P (take k s) = take k s" by simp
  moreover have "filter P s = filter P (take k s) @ filter P (drop k s)"
    by (metis append_take_drop_id filter_append)
  ultimately show ?thesis using assms(1) by simp
qed

lemma count_suffix:
  assumes "\<forall>i. k \<le> i \<and> i < length s \<longrightarrow> P (s ! i)"
  shows "length s - k \<le> length (filter P s)"
proof -
  have "\<forall>x \<in> set (drop k s). P x"
    using assms by (auto simp: in_set_conv_nth)
  then have "filter P (drop k s) = drop k s" by simp
  moreover have "filter P s = filter P (take k s) @ filter P (drop k s)"
    by (metis append_take_drop_id filter_append)
  ultimately show ?thesis by simp
qed

lemma middle_is_median_sorted:
  assumes "sorted s" and "s \<noteq> []"
  shows "is_median s (middle s)"
proof (cases "odd (length s)")
  case True
  define h where "h = length s div 2"
  have n: "length s = 2 * h + 1" using True by (auto simp: h_def elim: oddE)
  have m: "middle s = s ! h" using True by (simp add: middle_def h_def Let_def)
  have "\<forall>i<Suc h. s ! i \<le> s ! h"
    using assms(1) n by (auto intro: sorted_nth_mono)
  then have a: "Suc h \<le> length (filter (\<lambda>v. v \<le> s ! h) s)"
    using n by (intro count_prefix) simp_all
  have "\<forall>i. h \<le> i \<and> i < length s \<longrightarrow> s ! h \<le> s ! i"
    using assms(1) by (auto intro: sorted_nth_mono)
  then have b: "length s - h \<le> length (filter (\<lambda>v. s ! h \<le> v) s)"
    by (rule count_suffix)
  show ?thesis using a b n by (simp add: is_median_def m)
next
  case False
  define h where "h = length s div 2"
  have n: "length s = 2 * h" using False by (auto simp: h_def)
  have h: "0 < h" using n assms(2) by (cases h) auto
  have m: "middle s = (s ! (h - 1) + s ! h) / 2" using False by (simp add: middle_def h_def Let_def)
  have ab: "s ! (h - 1) \<le> s ! h"
    using assms(1) n h by (intro sorted_nth_mono) simp_all
  have lo: "s ! (h - 1) \<le> middle s" and hi: "middle s \<le> s ! h"
    using ab by (simp_all add: m)
  have "\<forall>i<h. s ! i \<le> middle s"
  proof (intro allI impI)
    fix i assume "i < h"
    then have "s ! i \<le> s ! (h - 1)"
      using assms(1) n by (intro sorted_nth_mono) simp_all
    with lo show "s ! i \<le> middle s" by simp
  qed
  then have a: "h \<le> length (filter (\<lambda>v. v \<le> middle s) s)"
    using n by (intro count_prefix) simp_all
  have "\<forall>i. h \<le> i \<and> i < length s \<longrightarrow> middle s \<le> s ! i"
  proof (intro allI impI)
    fix i assume "h \<le> i \<and> i < length s"
    then have "s ! h \<le> s ! i"
      using assms(1) by (intro sorted_nth_mono) simp_all
    with hi show "middle s \<le> s ! i" by simp
  qed
  then have b: "length s - h \<le> length (filter (\<lambda>v. middle s \<le> v) s)"
    by (rule count_suffix)
  show ?thesis using a b n by (simp add: is_median_def)
qed

lemma is_median_perm: "mset xs = mset ys \<Longrightarrow> is_median xs m = is_median ys m"
proof -
  assume e: "mset xs = mset ys"
  have "length (filter P xs) = length (filter P ys)" for P :: "real \<Rightarrow> bool"
    using e by (metis mset_filter size_mset)
  moreover have "length xs = length ys" using e by (rule mset_eq_length)
  ultimately show ?thesis by (simp add: is_median_def)
qed

lemma middle_sort_is_median: "vs \<noteq> [] \<Longrightarrow> is_median vs (middle (sort vs))"
proof -
  assume "vs \<noteq> []"
  then have "sort vs \<noteq> []" by (metis length_sort length_0_conv)
  then have "is_median (sort vs) (middle (sort vs))"
    by (intro middle_is_median_sorted) simp_all
  then show ?thesis using is_median_perm [of "sort vs" vs] by simp
qed

lemma middle_zeros: "0 < n \<Longrightarrow> middle (replicate n 0) = 0"
  by (auto simp: middle_def Let_def)

lemma present_zeros: "present (map (\<lambda>r. Val 0) xs) = replicate (length xs) 0"
  by (induction xs) simp_all

lemma present_missing: "\<forall>r \<in> set xs. f r = None \<Longrightarrow> present (map (\<lambda>r. cell_of (f r)) xs) = []"
  by (induction xs) (simp_all add: cell_of_def)

lemma sort_zeros: "sort (replicate n (0::real)) = replicate n 0"
  by (simp add: sorted_sort_id sorted_replicate)

lemma total_volume_column:
  "map total_volume_sel (selected cfg df)
     = (if has_col df total_volume
        then map (\<lambda>r. cell_of (total_volume r)) (rank_filter cfg df)
        else map (\<lambda>r. Val 0) (rank_filter cfg df))"
  by (simp add: selected_def prepare_def row_get_def comp_def)

lemma median_vol_formula:
  "median_vol (selected cfg df)
     = (if volumes cfg df = [] then Fin 0 else Fin (middle (sort (volumes cfg df))))
   \<and> (volumes cfg df \<noteq> [] \<longrightarrow> is_median (volumes cfg df) (middle (sort (volumes cfg df))))"
proof (intro conjI impI)
  show "volumes cfg df \<noteq> [] \<Longrightarrow> is_median (volumes cfg df) (middle (sort (volumes cfg df)))"
    by (rule middle_sort_is_median)
  show "median_vol (selected cfg df)
     = (if volumes cfg df = [] then Fin 0 else Fin (middle (sort (volumes cfg df))))"
  proof (cases "has_col df total_volume")
    case True
    then show ?thesis
      by (simp add: median_vol_def total_volume_column series_median_def volumes_def
            present_empty [symmetric] Let_def)
  next
    case False
    then have "\<forall>r \<in> set (rank_filter cfg df). total_volume r = None"
      by (auto simp: has_col_def rank_filter_filter)
    then have v: "volumes cfg df = []"
      unfolding volumes_def by (rule present_missing)
    show ?thesis
    proof (cases "rank_filter cfg df = []")
      case True
      then show ?thesis using v by (simp add: median_vol_def total_volume_column)
    next
      case nonempty: False
      then have "\<not> list_all isna (map (\<lambda>r. Val (0::real)) (rank_filter cfg df))"
        by (cases "rank_filter cfg df") (simp_all add: isna_def)
      then show ?thesis using v False nonempty
        by (simp add: median_vol_def total_volume_column series_median_def Let_def
              present_zeros sort_zeros middle_zeros)
    qed
  qed
qed

lemma median_vol_filtered: "median_vol (selected cfg df) = filtered_median cfg df"
  using median_vol_formula [of cfg df] by (simp add: filtered_median_def)

lemma candidates_of_expected: "candidates_of cfg env df = expected_candidates cfg env df"
  unfolding candidates_of_def median_vol_filtered
  by (simp add: scan_rows_candidates expected_candidates_def selected_def comp_def)

lemma kept_reasons:
  "c \<in> set (kept (fst (eval_row cfg env df med row))) \<Longrightarrow>
     c_reasons c = reasons_of cfg med (c_vol c) (c_1h c) (c_24h c)"
  by (auto simp: eval_row_cases kept_def split: sum.splits if_splits)

lemma expected_reasons:
  "c \<in> set (expected_candidates cfg env df) \<Longrightarrow>
     c_reasons c = reasons_of cfg (filtered_median cfg df) (c_vol c) (c_1h c) (c_24h c)"
  by (auto simp: expected_candidates_def dest: kept_reasons)

lemma reason_vol_iff:
  "Reason_vol vol (VOLUME_MULTIPLIER cfg) \<in> set (reasons_of cfg med vol h1 h24)
     \<longleftrightarrow> cond_vol cfg med vol"
  by (simp add: reasons_of_def)

lemma scan_frame_emails:
  "email_calls (snd (scan_frame cfg env df))
     = (case render_report cfg (candidates_of cfg env df) of
          Inl e \<Rightarrow> []
        | Inr rep \<Rightarrow>
            if candidates_of cfg env df = [] then []
            else [(Candidates_found (length (candidates_of cfg env df)), Report rep)])"
proof -
  let ?sr = "scan_rows cfg env df (median_vol (selected cfg df)) (selected cfg df) []"
  have c: "candidates_of cfg env df = fst ?sr" by (simp add: candidates_of_def)
  have t1: "email_calls (snd ?sr) = []" by (rule scan_rows_no_email)
  have e: "rank_filter cfg df = [] \<Longrightarrow> fst ?sr = []" by (simp add: selected_def)
  have h: "rank_filter cfg df \<noteq> [] \<Longrightarrow> has_col df market_cap_rank"
  proof -
    assume "rank_filter cfg df \<noteq> []"
    then obtain r where "r \<in> set (rank_filter cfg df)"
      by (cases "rank_filter cfg df") auto
    then have "r \<in> set df" "in_rank_window cfg r"
      by (simp_all add: rank_filter_filter)
    then show ?thesis by (auto simp: has_col_def in_rank_window_def)
  qed
  show ?thesis
  proof (cases "rank_filter cfg df = []")
    case True
    then show ?thesis using e
      by (simp add: scan_frame_def c split: sum.splits)
  next
    case False
    note ne = False h [OF False]
    show ?thesis
    proof (cases "render_report cfg (fst ?sr)")
      case (Inl x)
      then show ?thesis using ne t1
        by (simp add: scan_frame_def c Let_def case_prod_beta email_calls_append)
    next
      case (Inr html)
      let ?se = "send_email cfg env (Candidates_found (length (fst ?sr))) (Report html)"
      have t2: "email_calls (snd ?se) = [(Candidates_found (length (fst ?sr)), Report html)]"
        by (rule send_email_calls)
      show ?thesis using ne t1 t2 Inr
        by (cases "fst ?se")
           (simp_all add: scan_frame_def c Let_def case_prod_beta email_calls_append)
    qed
  qed
qed


lemma run_scan_emails:
  assumes "fetch_coingecko_markets env = Returns (JsonList df)"
  shows "(s, Report rep) \<in> set (email_calls (snd (run_scan cfg env)))
           \<longleftrightarrow> (s, Report rep) \<in> set (email_calls (snd (scan_frame cfg env df)))"
proof (cases "df = []")
  case True
  then show ?thesis using assms
    by (simp add: run_scan_def scan_body_def scan_frame_def has_col_def)
next
  case False
  obtain res t where f: "scan_frame cfg env df = (res, t)" by (cases "scan_frame cfg env df")
  show ?thesis
  proof (cases res)
    case (Inr u)
    then show ?thesis using assms False f by (simp add: run_scan_def scan_body_def)
  next
    case (Inl e)
    have "email_calls (snd (send_email cfg env Scanner_ERROR (Crash e))) = [(Scanner_ERROR, Crash e)]"
      by (rule send_email_calls)
    then show ?thesis using assms False f Inl
      by (cases "fst (send_email cfg env Scanner_ERROR (Crash e))")
         (auto simp: run_scan_def scan_body_def case_prod_beta email_calls_append)
  qed
qed

text \<open>
  C5. The median volume that a run uses in the volume condition is the median of the
  total-volume values present in the rank-filtered population only (the middle of the
  sorted values, which is a statistical median of them), and it is 0 when no value is
  present. The candidates of a run are those obtained by evaluating each filtered record
  against this median, each candidate carries the reasons computed with it, and the
  report that a run sends is the report of exactly these candidates.
\<close>

theorem median_volume_of_filtered:
  "median_vol (selected cfg df) = filtered_median cfg df
   \<and> filtered_median cfg df
       = (if volumes cfg df = [] then Fin 0 else Fin (middle (sort (volumes cfg df))))
   \<and> (volumes cfg df \<noteq> [] \<longrightarrow> is_median (volumes cfg df) (middle (sort (volumes cfg df))))
   \<and> candidates_of cfg env df = expected_candidates cfg env df
   \<and> (\<forall>c \<in> set (candidates_of cfg env df).
         c_reasons c = reasons_of cfg (filtered_median cfg df) (c_vol c) (c_1h c) (c_24h c)
         \<and> (Reason_vol (c_vol c) (VOLUME_MULTIPLIER cfg) \<in> set (c_reasons c)
              \<longleftrightarrow> cond_vol cfg (filtered_median cfg df) (c_vol c)))
   \<and> (fetch_coingecko_markets env = Returns (JsonList df) \<longrightarrow>
        (\<forall>s rep. (s, Report rep) \<in> set (email_calls (snd (run_scan cfg env)))
            \<longleftrightarrow> expected_candidates cfg env df \<noteq> []
                \<and> s = Candidates_found (length (expected_candidates cfg env df))
                \<and> render_report cfg (expected_candidates cfg env df) = Inr rep))"
proof (intro conjI ballI impI allI)
  show "median_vol (selected cfg df) = filtered_median cfg df"
    by (rule median_vol_filtered)
  show "filtered_median cfg df
       = (if volumes cfg df = [] then Fin 0 else Fin (middle (sort (volumes cfg df))))"
    by (simp add: filtered_median_def)
  show "volumes cfg df \<noteq> [] \<Longrightarrow> is_median (volumes cfg df) (middle (sort (volumes cfg df)))"
    by (rule middle_sort_is_median)
  show "candidates_of cfg env df = expected_candidates cfg env df"
    by (rule candidates_of_expected)
next
  fix c assume "c \<in> set (candidates_of cfg env df)"
  then have r: "c_reasons c = reasons_of cfg (filtered_median cfg df) (c_vol c) (c_1h c) (c_24h c)"
    by (simp add: candidates_of_expected expected_reasons)
  then show "c_reasons c = reasons_of cfg (filtered_median cfg df) (c_vol c) (c_1h c) (c_24h c)" .
  show "Reason_vol (c_vol c) (VOLUME_MULTIPLIER cfg) \<in> set (c_reasons c)
              \<longleftrightarrow> cond_vol cfg (filtered_median cfg df) (c_vol c)"
    by (simp only: r reason_vol_iff)
next
  fix s rep
  assume f: "fetch_coingecko_markets env = Returns (JsonList df)"
  show "(s, Report rep) \<in> set (email_calls (snd (run_scan cfg env)))
            \<longleftrightarrow> expected_candidates cfg env df \<noteq> []
                \<and> s = Candidates_found (length (expected_candidates cfg env df))
                \<and> render_report cfg (expected_candidates cfg env df) = Inr rep"
    unfolding run_scan_emails [OF f] scan_frame_emails candidates_of_expected
    by (auto split: sum.splits)
qed

theorem median_volume_of_filtered_witness:
  "volumes cfg0 df1 = [100, 300, 100]
   \<and> median_vol (selected cfg0 df1) = Fin 100
   \<and> is_median [100, 300, 100] 100
   \<and> middle (sort (present (map (\<lambda>r. cell_of (total_volume r)) df1))) = 300
   \<and> kept (fst (eval_row cfg0 env1 df1 (Fin 300) (prepare df1 coin_b))) = []
   \<and> map c_symbol (candidates_of cfg0 env1 df1) = [''BBB'', ''EEE'']
   \<and> (Candidates_found 2, Report (projr (render_report cfg0 (expected_candidates cfg0 env1 df1))))
       \<in> set (email_calls (snd (run_scan cfg0 env1)))"
proof -
  let ?ex = "expected_candidates cfg0 env1 df1"
  have v: "volumes cfg0 df1 = [100, 300, 100]" by code_simp
  have m: "middle (sort [100, 300, 100]) = 100" by code_simp
  have u: "middle (sort (present (map (\<lambda>r. cell_of (total_volume r)) df1))) = 300" by code_simp
  have k: "kept (fst (eval_row cfg0 env1 df1 (Fin 300) (prepare df1 coin_b))) = []" by code_simp
  have e: "map c_symbol ?ex = [''BBB'', ''EEE'']" by code_simp
  have r: "render_report cfg0 ?ex = Inr (projr (render_report cfg0 ?ex))" by code_simp
  have f: "fetch_coingecko_markets env1 = Returns (JsonList df1)"
    by (simp add: env1_def env0_def)
  have l: "length ?ex = 2" using e by (metis length_map length_Cons list.size(3) numeral_2_eq_2)
  have n: "?ex \<noteq> []" using l by auto
  note t = median_volume_of_filtered [where cfg = cfg0 and df = df1 and env = env1]
  have 1: "median_vol (selected cfg0 df1) = Fin 100"
    using t [THEN conjunct1] t [THEN conjunct2, THEN conjunct1] v m by simp
  have 2: "is_median [100, 300, 100] 100"
    using t [THEN conjunct2, THEN conjunct2, THEN conjunct1] v m by simp
  have 3: "map c_symbol (candidates_of cfg0 env1 df1) = [''BBB'', ''EEE'']"
    using t [THEN conjunct2, THEN conjunct2, THEN conjunct2, THEN conjunct1] e by simp
  have 4: "(Candidates_found 2, Report (projr (render_report cfg0 ?ex)))
       \<in> set (email_calls (snd (run_scan cfg0 env1)))"
    using t [THEN conjunct2, THEN conjunct2, THEN conjunct2, THEN conjunct2, THEN conjunct2,
      rule_format, OF f, of "Candidates_found 2" "projr (render_report cfg0 ?ex)"] r l n
    by simp
  show ?thesis using v 1 2 u k 3 4 by simp
qed

section \<open>A missing 1-hour change\<close>

text \<open>
  C2. A missing 1-hour change is not treated as 0. In \<open>df2\<close> the 1-hour cell of
  \<open>coin_n\<close> is \<open>nan\<close>, which is truthy, so \<open>float(x or 0)\<close> is \<open>nan\<close> and the
  1-hour condition fails even for \<open>MIN_1H_PCT = 0\<close>, where 0 would satisfy it: the record
  is not a candidate although its 24-hour condition holds. In \<open>df3\<close> no object has the
  1-hour key or the 24-hour in-currency key, and the 1-hour column is a copy of the
  \<open>price_change_percentage_24h\<close> column: \<open>coin_s\<close> becomes a candidate on the strength of
  its 24-hour value.
\<close>

theorem missing_1h_is_not_zero:
  "float_or_0 (price_change_1h (prepare df2 coin_n)) = FNaN
   \<and> \<not> cond_1h cfg_zero (float_or_0 (price_change_1h (prepare df2 coin_n)))
   \<and> cond_1h cfg_zero (Fin 0)
   \<and> cond_24h cfg_zero (float_or_0 (price_change_24h_sel (prepare df2 coin_n)))
   \<and> candidates_of cfg_zero (env0 (Returns (JsonList df2))) df2 = []
   \<and> price_change_1h (prepare df3 coin_s) = Val 5
   \<and> map c_symbol (candidates_of cfg0 (env0 (Returns (JsonList df3))) df3) = [''SSS'']"
  by code_simp

end
